theory Spec2Isabelle
  imports Complex_Main
begin

section \<open>The dashboard script of app.py\<close>

text \<open>
  app.py is a Streamlit script: it is run from top to bottom on every interaction, reads
  six scalars and a button from the sidebar, validates them, computes the profile through
  \<^verbatim>\<open>metpy.calc\<close>, and displays it. The model is that script as a function of the
  widget values.

  \<^item> The three pressures come from \<^verbatim>\<open>st.number_input\<close> with integer bounds and are
    Python ints; the temperature, the dewpoint and the mixing ratio come from sliders with
    float bounds and are Python floats. Floats are modelled as reals: the script's own
    arithmetic on them is a comparison, a subtraction, a product with 0.5, a division by
    2 and a division by the mixing ratio, and NaN and infinities are not represented.
  \<^item> \<^verbatim>\<open>metpy.calc\<close> is a third-party library and is taken as a parameter: a record
    of functions on magnitudes (hPa, degC, g/kg, percent). Its calls, and the calls on
    the analyzer, are assumed to return; nothing is assumed about what they return.
  \<^item> What the script does besides computing is kept as a trace of events, in the order
    of the source: every call into \<^verbatim>\<open>metpy.calc\<close>, every call on the
    \<^verbatim>\<open>FoehnEffectAnalyzer\<close> (skewt_plot.py, the renderer) and every Streamlit output.
    Labels, colours and the formatting of numbers into strings are left out.
\<close>

subsection \<open>Errors, events, and scripts that log and may raise\<close>

text \<open>
  \<^verbatim>\<open>st.sidebar.error(msg); st.stop()\<close> is how the script rejects an input: it is the
  error \<open>InvalidInputError msg\<close>. The other two are Python's own exceptions, which the
  script never catches.
\<close>

datatype error = InvalidInputError string | ZeroDivisionError | IndexError

datatype mpcalc_fn =
    Lcl | Moist_lapse | Dry_lapse
  | Specific_humidity_from_mixing_ratio | Dewpoint_from_specific_humidity
  | Relative_humidity_from_dewpoint

datatype process_type = Dry | Moist

datatype level = Error | Warning | Info | Success

datatype event =
    Sidebar_error string
  | Calc mpcalc_fn
  | Configure_diagram int int int int
  | Set_initial_conditions int real real real
  | Plot_observation_point real real
  | Plot_adiabatic_process real real real process_type
  | Finalize_plot
  | Pyplot
  | Metric string real real
  | Table "int list" "real list"
  | Banner level string
  | Download_report "real list" bool

type_synonym 'a script = "event list \<times> (error + 'a)"

definition ret :: "'a \<Rightarrow> 'a script" where
  "ret x = ([], Inr x)"

definition emit :: "event \<Rightarrow> unit script" where
  "emit ev = ([ev], Inr ())"

definition raise :: "error \<Rightarrow> 'a script" where
  "raise e = ([], Inl e)"

definition call :: "mpcalc_fn \<Rightarrow> 'a \<Rightarrow> 'a script" where
  "call f v = ([Calc f], Inr v)"

text \<open>Sequencing: the events of both parts in order; an error ends the script.\<close>

definition seq :: "'a script \<Rightarrow> ('a \<Rightarrow> 'b script) \<Rightarrow> 'b script" where
  "seq m f =
     (case m of
        (es, Inl e) \<Rightarrow> (es, Inl e)
      | (es, Inr x) \<Rightarrow> (case f x of (es', r) \<Rightarrow> (es @ es', r)))"

definition is_invalid_input :: "error + 'a \<Rightarrow> bool" where
  "is_invalid_input r = (case r of Inl (InvalidInputError _) \<Rightarrow> True | _ \<Rightarrow> False)"

definition is_calc :: "event \<Rightarrow> bool" where
  "is_calc ev = (case ev of Calc _ \<Rightarrow> True | _ \<Rightarrow> False)"

subsection \<open>Python and numpy helpers\<close>

text \<open>\<^verbatim>\<open>xs[-1]\<close>: the last element; IndexError on an empty array.\<close>

definition last_elem :: "'a list \<Rightarrow> 'a script" where
  "last_elem xs = (if xs = [] then raise IndexError else ret (last xs))"

text \<open>\<^verbatim>\<open>a / b\<close> on Python floats: ZeroDivisionError when \<open>b\<close> is zero.\<close>

definition truediv :: "real \<Rightarrow> real \<Rightarrow> real script" where
  "truediv a b = (if b = 0 then raise ZeroDivisionError else ret (a / b))"

text \<open>\<^verbatim>\<open>int(x)\<close> on a float truncates towards zero.\<close>

definition py_int :: "real \<Rightarrow> int" where
  "py_int x = (if 0 \<le> x then \<lfloor>x\<rfloor> else \<lceil>x\<rceil>)"

text \<open>\<^verbatim>\<open>np.linspace(start, stop, num)\<close>: \<open>num\<close> evenly spaced samples, both ends included.\<close>

definition linspace :: "real \<Rightarrow> real \<Rightarrow> nat \<Rightarrow> real list" where
  "linspace start stop num =
     map (\<lambda>i. start + real i * ((stop - start) / real (num - 1))) [0..<num]"

subsection \<open>Inputs, the library, and the computed values\<close>

record inputs =
  north_pressure :: int
  north_temp :: real
  north_dewpoint :: real
  north_mixing_ratio :: real
  summit_pressure :: int
  south_pressure :: int
  analyze_button :: bool

text \<open>
  The functions of \<^verbatim>\<open>metpy.calc\<close> that app.py calls, with the arguments it passes:
  \<open>lcl pressure temperature dewpoint\<close>, \<open>moist_lapse pressures temperature
  reference_pressure\<close>, \<open>dry_lapse pressures temperature\<close>,
  \<open>dewpoint_from_specific_humidity pressure temperature specific_humidity\<close>,
  \<open>relative_humidity_from_dewpoint temperature dewpoint\<close> (read in percent).
\<close>

record mpcalc =
  lcl :: "real \<Rightarrow> real \<Rightarrow> real \<Rightarrow> real \<times> real"
  moist_lapse :: "real list \<Rightarrow> real \<Rightarrow> real \<Rightarrow> real list"
  dry_lapse :: "real list \<Rightarrow> real \<Rightarrow> real list"
  specific_humidity_from_mixing_ratio :: "real \<Rightarrow> real"
  dewpoint_from_specific_humidity :: "real \<Rightarrow> real \<Rightarrow> real \<Rightarrow> real"
  relative_humidity_from_dewpoint :: "real \<Rightarrow> real \<Rightarrow> real"

text \<open>The variables that lines 180 to 214 of app.py assign.\<close>

record profile =
  lcl_pressure :: real
  lcl_temp :: real
  summit_temp_calc :: real
  summit_mixing_ratio :: real
  lcl_descent_pressure :: real
  lcl_descent_temp :: real
  south_temp_calc :: real
  south_dewpoint_calc :: real

text \<open>The variables of lines 293 to 299, and the percentage of line 325.\<close>

record metrics =
  temp_increase :: real
  final_rh :: real
  moisture_loss :: real
  moisture_loss_percent :: real

subsection \<open>The script\<close>

text \<open>Lines 150 to 157: the two checks, in the order of the source.\<close>

definition validation :: "inputs \<Rightarrow> unit script" where
  "validation inp =
     (if north_dewpoint inp > north_temp inp then
        seq (emit (Sidebar_error ''WARNING: Dewpoint cannot exceed temperature''))
          (\<lambda>_. raise (InvalidInputError ''WARNING: Dewpoint cannot exceed temperature''))
      else if summit_pressure inp \<ge> north_pressure inp then
        seq (emit (Sidebar_error ''WARNING: Summit pressure must be less than surface pressure''))
          (\<lambda>_. raise (InvalidInputError ''WARNING: Summit pressure must be less than surface pressure''))
      else ret ())"

text \<open>Lines 165 to 177: the analyzer is created, configured and given the windward point.\<close>

definition create_analyzer :: "inputs \<Rightarrow> unit script" where
  "create_analyzer inp =
     seq (emit (Configure_diagram (summit_pressure inp - 50) (north_pressure inp + 20) (- 40) 45))
       (\<lambda>_. emit (Set_initial_conditions (north_pressure inp) (north_temp inp)
                (north_dewpoint inp) (north_mixing_ratio inp)))"

text \<open>
  Lines 179 to 214: the lifting condensation level, the moist ascent to the summit, the
  moisture loss, the leeward condensation level, the moist and the dry descent, and the
  leeward dewpoint.
\<close>

definition calculate_profile :: "mpcalc \<Rightarrow> inputs \<Rightarrow> profile script" where
  "calculate_profile mp inp =
     seq (call Lcl (lcl mp (real_of_int (north_pressure inp)) (north_temp inp) (north_dewpoint inp)))
       (\<lambda>(lcl_pressure', lcl_temp').
     let pressures_ascent = linspace lcl_pressure' (real_of_int (summit_pressure inp)) 50 in
     seq (call Moist_lapse (moist_lapse mp pressures_ascent lcl_temp' lcl_pressure'))
       (\<lambda>ascent.
     seq (last_elem ascent)
       (\<lambda>summit_temp_calc'.
     let summit_mixing_ratio' = north_mixing_ratio inp * 0.5;
         lcl_descent_pressure' = real_of_int (summit_pressure inp + south_pressure inp) / 2;
         pressures_descent_moist =
           linspace (real_of_int (summit_pressure inp)) lcl_descent_pressure' 50 in
     seq (call Moist_lapse
            (moist_lapse mp pressures_descent_moist summit_temp_calc'
               (real_of_int (summit_pressure inp))))
       (\<lambda>descent_moist.
     seq (last_elem descent_moist)
       (\<lambda>lcl_descent_temp'.
     let pressures_descent_dry =
           linspace lcl_descent_pressure' (real_of_int (south_pressure inp)) 50 in
     seq (call Dry_lapse (dry_lapse mp pressures_descent_dry lcl_descent_temp'))
       (\<lambda>descent_dry.
     seq (last_elem descent_dry)
       (\<lambda>south_temp_calc'.
     seq (call Specific_humidity_from_mixing_ratio
            (specific_humidity_from_mixing_ratio mp summit_mixing_ratio'))
       (\<lambda>q.
     seq (call Dewpoint_from_specific_humidity
            (dewpoint_from_specific_humidity mp (real_of_int (south_pressure inp))
               south_temp_calc' q))
       (\<lambda>south_dewpoint_calc'.
     ret \<lparr> lcl_pressure = lcl_pressure', lcl_temp = lcl_temp',
           summit_temp_calc = summit_temp_calc',
           summit_mixing_ratio = summit_mixing_ratio',
           lcl_descent_pressure = lcl_descent_pressure',
           lcl_descent_temp = lcl_descent_temp',
           south_temp_calc = south_temp_calc',
           south_dewpoint_calc = south_dewpoint_calc' \<rparr>)))))))))"

text \<open>Lines 216 to 287: the four points, the four processes, and the figure.\<close>

definition plot_profile :: "inputs \<Rightarrow> profile \<Rightarrow> event list" where
  "plot_profile inp prof =
     [Plot_observation_point (real_of_int (north_pressure inp)) (north_temp inp),
      Plot_observation_point (lcl_pressure prof) (lcl_temp prof),
      Plot_observation_point (real_of_int (summit_pressure inp)) (summit_temp_calc prof),
      Plot_observation_point (real_of_int (south_pressure inp)) (south_temp_calc prof),
      Plot_adiabatic_process (real_of_int (north_pressure inp)) (lcl_pressure prof)
        (north_temp inp) Dry,
      Plot_adiabatic_process (lcl_pressure prof) (real_of_int (summit_pressure inp))
        (lcl_temp prof) Moist,
      Plot_adiabatic_process (real_of_int (summit_pressure inp)) (lcl_descent_pressure prof)
        (summit_temp_calc prof) Moist,
      Plot_adiabatic_process (lcl_descent_pressure prof) (real_of_int (south_pressure inp))
        (lcl_descent_temp prof) Dry,
      Finalize_plot,
      Pyplot]"

text \<open>The block \<^verbatim>\<open>with col1:\<close>, lines 162 to 287.\<close>

definition col1 :: "mpcalc \<Rightarrow> inputs \<Rightarrow> profile script" where
  "col1 mp inp =
     seq (create_analyzer inp)
       (\<lambda>_. seq (calculate_profile mp inp)
       (\<lambda>prof. (plot_profile inp prof, Inr prof)))"

text \<open>
  Lines 292 to 327: the metrics and their display. The arguments of \<^verbatim>\<open>st.metric\<close> are
  evaluated before the call, so the division of line 325 comes before the fourth metric
  is shown.
\<close>

definition calculate_metrics :: "mpcalc \<Rightarrow> inputs \<Rightarrow> profile \<Rightarrow> metrics script" where
  "calculate_metrics mp inp prof =
     (let temp_increase' = south_temp_calc prof - north_temp inp in
      seq (call Relative_humidity_from_dewpoint
             (relative_humidity_from_dewpoint mp (south_temp_calc prof) (south_dewpoint_calc prof)))
        (\<lambda>final_rh'.
      let moisture_loss' = north_mixing_ratio inp - summit_mixing_ratio prof in
      seq (emit (Metric ''Temperature Change'' temp_increase' temp_increase'))
        (\<lambda>_.
      seq (emit (Metric ''Final Temperature'' (south_temp_calc prof) (north_temp inp)))
        (\<lambda>_.
      seq (emit (Metric ''Relative Humidity'' final_rh' (100 - final_rh')))
        (\<lambda>_.
      seq (truediv moisture_loss' (north_mixing_ratio inp))
        (\<lambda>fraction.
      seq (emit (Metric ''Moisture Loss'' moisture_loss' (fraction * 100)))
        (\<lambda>_.
      ret \<lparr> temp_increase = temp_increase', final_rh = final_rh',
            moisture_loss = moisture_loss',
            moisture_loss_percent = fraction * 100 \<rparr>)))))))"

text \<open>Lines 329 to 354: the table of the four points.\<close>

definition results_data :: "inputs \<Rightarrow> profile \<Rightarrow> event" where
  "results_data inp prof =
     Table [north_pressure inp, py_int (lcl_pressure prof), summit_pressure inp, south_pressure inp]
           [north_temp inp, lcl_temp prof, summit_temp_calc prof, south_temp_calc prof]"

text \<open>Lines 356 to 373: the two risk banners.\<close>

definition risk_assessment :: "metrics \<Rightarrow> event list" where
  "risk_assessment m =
     [if temp_increase m > 15 then Banner Error ''EXTREME RISK: Very high wildfire danger''
      else if temp_increase m > 10 then
        Banner Warning ''HIGH RISK: Elevated wildfire and heat stress potential''
      else if temp_increase m > 5 then Banner Info ''MODERATE: Notable temperature anomaly''
      else Banner Success ''LOW RISK: Normal conditions'',
      if final_rh m < 20 then Banner Error ''EXTREME DRYNESS: Critical fire weather conditions''
      else if final_rh m < 30 then Banner Warning ''VERY DRY: High evapotranspiration rate''
      else Banner Info ''Normal humidity levels'']"

text \<open>The block \<^verbatim>\<open>with col2:\<close>, lines 289 to 373.\<close>

definition col2 :: "mpcalc \<Rightarrow> inputs \<Rightarrow> profile \<Rightarrow> metrics script" where
  "col2 mp inp prof =
     seq (calculate_metrics mp inp prof)
       (\<lambda>m. (results_data inp prof # risk_assessment m, Inr m))"

text \<open>
  Lines 394 to 434: the text report, which divides by the mixing ratio once more. Its
  numbers, in the order of the text, and whether it says "an extreme".
\<close>

definition report :: "inputs \<Rightarrow> profile \<Rightarrow> metrics \<Rightarrow> unit script" where
  "report inp prof m =
     seq (truediv (moisture_loss m) (north_mixing_ratio inp))
       (\<lambda>fraction.
     emit (Download_report
       [real_of_int (north_pressure inp), north_temp inp, north_dewpoint inp,
        north_mixing_ratio inp, real_of_int (summit_pressure inp),
        south_temp_calc prof, south_dewpoint_calc prof, final_rh m,
        temp_increase m, moisture_loss m, fraction * 100]
       (temp_increase m > 10)))"

text \<open>
  The profile computation with its validation (the specification's
  \<^verbatim>\<open>compute_full_profile\<close>), and the whole script from line 150 on. The two export
  buttons, which read other widgets, are left out.
\<close>

definition compute_full_profile :: "mpcalc \<Rightarrow> inputs \<Rightarrow> profile script" where
  "compute_full_profile mp inp = seq (validation inp) (\<lambda>_. col1 mp inp)"

definition app :: "mpcalc \<Rightarrow> inputs \<Rightarrow> (profile \<times> metrics) script" where
  "app mp inp =
     seq (compute_full_profile mp inp)
       (\<lambda>prof. seq (col2 mp inp prof)
       (\<lambda>m. seq (report inp prof m)
       (\<lambda>_. ret (prof, m))))"

subsection \<open>The sidebar's ranges, the preset, and a stand-in for the library\<close>

text \<open>The bounds of the six widgets, lines 103 to 145.\<close>

definition widget_range :: "inputs \<Rightarrow> bool" where
  "widget_range inp =
     (900 \<le> north_pressure inp \<and> north_pressure inp \<le> 1050 \<and>
      - 10 \<le> north_temp inp \<and> north_temp inp \<le> 40 \<and>
      - 20 \<le> north_dewpoint inp \<and> north_dewpoint inp \<le> 30 \<and>
      0 \<le> north_mixing_ratio inp \<and> north_mixing_ratio inp \<le> 20 \<and>
      300 \<le> summit_pressure inp \<and> summit_pressure inp \<le> 800 \<and>
      900 \<le> south_pressure inp \<and> south_pressure inp \<le> 1050)"

text \<open>The preset "Madeira Island (Default)", lines 91 to 95, with the button not pressed.\<close>

definition madeira :: inputs where
  "madeira =
     \<lparr> north_pressure = 1000, north_temp = 20, north_dewpoint = 10.5,
       north_mixing_ratio = 8, summit_pressure = 400, south_pressure = 1000,
       analyze_button = False \<rparr>"

text \<open>
  The library returns one temperature for each pressure it is given. This is the only
  thing about it that the totality results below need.
\<close>

definition array_shaped :: "mpcalc \<Rightarrow> bool" where
  "array_shaped mp =
     ((\<forall>ps t p0. length (moist_lapse mp ps t p0) = length ps) \<and>
      (\<forall>ps t. length (dry_lapse mp ps t) = length ps))"

text \<open>
  A stand-in for the library, used only to run the script on concrete inputs: it keeps
  every temperature as it is and reports saturation. Every theorem below is proved for
  an arbitrary \<open>mpcalc\<close>; none is about this one.
\<close>

definition isothermal :: mpcalc where
  "isothermal =
     \<lparr> lcl = (\<lambda>p t td. (p, t)),
       moist_lapse = (\<lambda>ps t p0. map (\<lambda>_. t) ps),
       dry_lapse = (\<lambda>ps t. map (\<lambda>_. t) ps),
       specific_humidity_from_mixing_ratio = (\<lambda>w. w),
       dewpoint_from_specific_humidity = (\<lambda>p t q. t),
       relative_humidity_from_dewpoint = (\<lambda>t td. 100) \<rparr>"

section \<open>Basic facts\<close>

lemma seq_Inl [simp]: "seq (es, Inl e) f = (es, Inl e)"
  by (simp add: seq_def)

lemma seq_Inr [simp]: "seq (es, Inr x) f = (es @ fst (f x), snd (f x))"
  by (simp add: seq_def split: prod.splits)

lemma length_linspace [simp]: "length (linspace a b n) = n"
  by (simp add: linspace_def)

lemma linspace_50_nonempty [simp]: "linspace a b 50 \<noteq> []"
proof
  assume "linspace a b 50 = []"
  then have "length (linspace a b 50) = 0" by simp
  then show False by simp
qed

lemma array_shaped_isothermal: "array_shaped isothermal"
  by (simp add: array_shaped_def isothermal_def)

lemma array_shaped_moist: "array_shaped mp \<Longrightarrow> moist_lapse mp (linspace a b 50) t p0 \<noteq> []"
proof -
  assume "array_shaped mp"
  then have "length (moist_lapse mp (linspace a b 50) t p0) = 50"
    by (simp add: array_shaped_def)
  then show ?thesis by auto
qed

lemma array_shaped_dry: "array_shaped mp \<Longrightarrow> dry_lapse mp (linspace a b 50) t \<noteq> []"
proof -
  assume "array_shaped mp"
  then have "length (dry_lapse mp (linspace a b 50) t) = 50"
    by (simp add: array_shaped_def)
  then show ?thesis by auto
qed

subsection \<open>The validation\<close>

lemma validation_dewpoint:
  "north_temp inp < north_dewpoint inp \<Longrightarrow>
   validation inp =
     ([Sidebar_error ''WARNING: Dewpoint cannot exceed temperature''],
      Inl (InvalidInputError ''WARNING: Dewpoint cannot exceed temperature''))"
  by (simp add: validation_def emit_def raise_def)

lemma validation_summit:
  "\<not> north_temp inp < north_dewpoint inp \<Longrightarrow> north_pressure inp \<le> summit_pressure inp \<Longrightarrow>
   validation inp =
     ([Sidebar_error ''WARNING: Summit pressure must be less than surface pressure''],
      Inl (InvalidInputError ''WARNING: Summit pressure must be less than surface pressure''))"
  by (simp add: validation_def emit_def raise_def)

lemma validation_passes:
  "north_dewpoint inp \<le> north_temp inp \<Longrightarrow> summit_pressure inp < north_pressure inp \<Longrightarrow>
   validation inp = ([], Inr ())"
  by (simp add: validation_def ret_def)

text \<open>
  Inside the sidebar's ranges the summit is at most 800 hPa and both surfaces are at
  least 900 hPa: the summit is below both surfaces, the second check never fires, and
  the validation is decided by the dewpoint check alone.
\<close>

lemma widget_range_summit_below:
  "widget_range inp \<Longrightarrow>
   summit_pressure inp < north_pressure inp \<and> summit_pressure inp < south_pressure inp"
  by (simp add: widget_range_def)

lemma widget_range_validation:
  "widget_range inp \<Longrightarrow>
   validation inp =
     (if north_temp inp < north_dewpoint inp then
        ([Sidebar_error ''WARNING: Dewpoint cannot exceed temperature''],
         Inl (InvalidInputError ''WARNING: Dewpoint cannot exceed temperature''))
      else ([], Inr ()))"
  by (simp add: widget_range_def validation_def emit_def raise_def ret_def)

subsection \<open>The profile\<close>

text \<open>
  The only way the profile computation can fail is an empty array from the library;
  otherwise the mixing ratio of the summit and the pressure of the leeward condensation
  level are the script's own arithmetic on the inputs.
\<close>

lemma calculate_profile_cases:
  "snd (calculate_profile mp inp) = Inl IndexError \<or>
   (\<exists>prof. snd (calculate_profile mp inp) = Inr prof \<and>
      summit_mixing_ratio prof = north_mixing_ratio inp * 0.5 \<and>
      lcl_descent_pressure prof = real_of_int (summit_pressure inp + south_pressure inp) / 2)"
  by (simp add: calculate_profile_def call_def last_elem_def ret_def raise_def Let_def
      split: prod.splits)

lemma calculate_profile_returns:
  "array_shaped mp \<Longrightarrow> \<exists>prof. snd (calculate_profile mp inp) = Inr prof"
  by (simp add: calculate_profile_def call_def last_elem_def ret_def raise_def Let_def
      array_shaped_moist array_shaped_dry split: prod.splits)

lemma col1_result: "snd (col1 mp inp) = snd (calculate_profile mp inp)"
  by (cases "calculate_profile mp inp"; cases "snd (calculate_profile mp inp)")
     (simp_all add: col1_def create_analyzer_def emit_def)

lemma seq_prefix: "list_ex P (fst m) \<Longrightarrow> list_ex P (fst (seq m f))"
  by (cases m; cases "snd m") (auto simp: seq_def list_ex_iff split: prod.splits)

lemma calculate_profile_calc: "list_ex is_calc (fst (calculate_profile mp inp))"
  unfolding calculate_profile_def
  by (rule seq_prefix) (simp add: call_def is_calc_def)

text \<open>Once the validation has passed, the library is called.\<close>

lemma col1_calc: "list_ex is_calc (fst (col1 mp inp))"
  by (simp add: col1_def create_analyzer_def emit_def seq_prefix calculate_profile_calc)

lemma compute_full_profile_valid:
  "north_dewpoint inp \<le> north_temp inp \<Longrightarrow> summit_pressure inp < north_pressure inp \<Longrightarrow>
   compute_full_profile mp inp = col1 mp inp"
  by (simp add: compute_full_profile_def validation_passes)

lemma compute_full_profile_Inr:
  "snd (compute_full_profile mp inp) = Inr prof \<Longrightarrow> snd (calculate_profile mp inp) = Inr prof"
  by (auto simp: compute_full_profile_def validation_def emit_def raise_def ret_def col1_result
      split: if_splits)

text \<open>InvalidInputError comes from the two checks of the validation and from nowhere else.\<close>

lemma invalid_input_only_from_validation:
  "is_invalid_input (snd (compute_full_profile mp inp)) \<Longrightarrow>
   north_temp inp < north_dewpoint inp \<or> north_pressure inp \<le> summit_pressure inp"
  using calculate_profile_cases [of mp inp]
  by (auto simp: compute_full_profile_def validation_def emit_def raise_def ret_def col1_result
      is_invalid_input_def split: if_splits)

subsection \<open>The script on the stand-in library\<close>

lemma calculate_profile_isothermal:
  "calculate_profile isothermal inp =
     ([Calc Lcl, Calc Moist_lapse, Calc Moist_lapse, Calc Dry_lapse,
       Calc Specific_humidity_from_mixing_ratio, Calc Dewpoint_from_specific_humidity],
      Inr \<lparr> lcl_pressure = real_of_int (north_pressure inp), lcl_temp = north_temp inp,
            summit_temp_calc = north_temp inp,
            summit_mixing_ratio = north_mixing_ratio inp * 0.5,
            lcl_descent_pressure = real_of_int (summit_pressure inp + south_pressure inp) / 2,
            lcl_descent_temp = north_temp inp,
            south_temp_calc = north_temp inp,
            south_dewpoint_calc = north_temp inp \<rparr>)"
  by (simp add: calculate_profile_def isothermal_def call_def last_elem_def ret_def
      last_map)

lemma compute_full_profile_madeira:
  "snd (compute_full_profile isothermal madeira) =
     Inr \<lparr> lcl_pressure = 1000, lcl_temp = 20, summit_temp_calc = 20,
           summit_mixing_ratio = 4, lcl_descent_pressure = 700, lcl_descent_temp = 20,
           south_temp_calc = 20, south_dewpoint_calc = 20 \<rparr>"
  by (simp add: compute_full_profile_def validation_def ret_def col1_result
      calculate_profile_isothermal madeira_def)

subsection \<open>The metrics\<close>

text \<open>With a mixing ratio other than zero the metrics are computed.\<close>

lemma nonzero_mixing_ratio_returns:
  "north_mixing_ratio inp \<noteq> 0 \<Longrightarrow>
   snd (calculate_metrics mp inp prof) =
     Inr \<lparr> temp_increase = south_temp_calc prof - north_temp inp,
           final_rh =
             relative_humidity_from_dewpoint mp (south_temp_calc prof) (south_dewpoint_calc prof),
           moisture_loss = north_mixing_ratio inp - summit_mixing_ratio prof,
           moisture_loss_percent =
             (north_mixing_ratio inp - summit_mixing_ratio prof) / north_mixing_ratio inp * 100 \<rparr>"
  by (simp add: calculate_metrics_def call_def emit_def truediv_def raise_def ret_def Let_def)

text \<open>
  The preset with the mixing ratio slider at its lower end, 0 g/kg: the figure is shown,
  and the run then ends in ZeroDivisionError.
\<close>

lemma app_zero_mixing_ratio:
  "widget_range (madeira\<lparr>north_mixing_ratio := 0\<rparr>) \<and>
   snd (app isothermal (madeira\<lparr>north_mixing_ratio := 0\<rparr>)) = Inl ZeroDivisionError \<and>
   list_ex (\<lambda>ev. ev = Pyplot) (fst (app isothermal (madeira\<lparr>north_mixing_ratio := 0\<rparr>)))"
  by (simp add: app_def compute_full_profile_def validation_def ret_def col1_def
      create_analyzer_def emit_def calculate_profile_isothermal plot_profile_def col2_def
      calculate_metrics_def call_def truediv_def raise_def Let_def madeira_def widget_range_def)

section \<open>The claims\<close>

text \<open>
  C3. Every profile that the computation produces has, as the mixing ratio of the
  summit, the windward mixing ratio times 0.5; and for every input that passes the
  validation the computation does produce a profile, provided the library returns one
  temperature for each pressure.
\<close>

theorem summit_mixing_ratio_half:
  "(snd (compute_full_profile mp inp) = Inr prof \<longrightarrow>
      summit_mixing_ratio prof = north_mixing_ratio inp * 0.5) \<and>
   (north_dewpoint inp \<le> north_temp inp \<and> summit_pressure inp < north_pressure inp \<and>
    array_shaped mp \<longrightarrow>
      (\<exists>p. snd (compute_full_profile mp inp) = Inr p \<and>
           summit_mixing_ratio p = north_mixing_ratio inp * 0.5))"
proof (intro conjI impI)
  assume "snd (compute_full_profile mp inp) = Inr prof"
  then have "snd (calculate_profile mp inp) = Inr prof"
    by (rule compute_full_profile_Inr)
  with calculate_profile_cases [of mp inp]
  show "summit_mixing_ratio prof = north_mixing_ratio inp * 0.5" by auto
next
  assume a: "north_dewpoint inp \<le> north_temp inp \<and> summit_pressure inp < north_pressure inp \<and>
    array_shaped mp"
  then obtain p where p: "snd (calculate_profile mp inp) = Inr p"
    using calculate_profile_returns by blast
  from a have "snd (compute_full_profile mp inp) = Inr p"
    by (simp add: compute_full_profile_valid col1_result p)
  moreover from p calculate_profile_cases [of mp inp]
  have "summit_mixing_ratio p = north_mixing_ratio inp * 0.5" by auto
  ultimately show "\<exists>p. snd (compute_full_profile mp inp) = Inr p \<and>
           summit_mixing_ratio p = north_mixing_ratio inp * 0.5" by blast
qed

text \<open>The preset: 8 g/kg at the windward surface, 4 g/kg at the summit.\<close>

theorem summit_mixing_ratio_half_witness:
  "north_dewpoint madeira \<le> north_temp madeira \<and>
   summit_pressure madeira < north_pressure madeira \<and>
   array_shaped isothermal \<and>
   (\<exists>p. snd (compute_full_profile isothermal madeira) = Inr p \<and> summit_mixing_ratio p = 4)"
proof -
  have h: "north_dewpoint madeira \<le> north_temp madeira \<and>
      summit_pressure madeira < north_pressure madeira \<and> array_shaped isothermal"
    by (simp add: madeira_def array_shaped_isothermal)
  have "north_mixing_ratio madeira * 0.5 = 4" by (simp add: madeira_def)
  with h summit_mixing_ratio_half [of isothermal madeira
      "\<lparr> lcl_pressure = 1000, lcl_temp = 20, summit_temp_calc = 20,
         summit_mixing_ratio = 4, lcl_descent_pressure = 700, lcl_descent_temp = 20,
         south_temp_calc = 20, south_dewpoint_calc = 20 \<rparr>"]
  show ?thesis by simp
qed

text \<open>
  C4. Every profile that the computation produces has, as the pressure of the leeward
  condensation level, the midpoint of the summit pressure and the leeward surface
  pressure, (summit_pressure + south_pressure) / 2; and for every input that passes the
  validation the computation does produce a profile, provided the library returns one
  temperature for each pressure.
\<close>

theorem lcl_descent_pressure_midpoint:
  "(snd (compute_full_profile mp inp) = Inr prof \<longrightarrow>
      lcl_descent_pressure prof =
        real_of_int (summit_pressure inp + south_pressure inp) / 2) \<and>
   (north_dewpoint inp \<le> north_temp inp \<and> summit_pressure inp < north_pressure inp \<and>
    array_shaped mp \<longrightarrow>
      (\<exists>p. snd (compute_full_profile mp inp) = Inr p \<and>
           lcl_descent_pressure p =
             real_of_int (summit_pressure inp + south_pressure inp) / 2))"
proof (intro conjI impI)
  assume "snd (compute_full_profile mp inp) = Inr prof"
  then have "snd (calculate_profile mp inp) = Inr prof"
    by (rule compute_full_profile_Inr)
  with calculate_profile_cases [of mp inp]
  show "lcl_descent_pressure prof = real_of_int (summit_pressure inp + south_pressure inp) / 2"
    by auto
next
  assume a: "north_dewpoint inp \<le> north_temp inp \<and> summit_pressure inp < north_pressure inp \<and>
    array_shaped mp"
  then obtain p where p: "snd (calculate_profile mp inp) = Inr p"
    using calculate_profile_returns by blast
  from a have "snd (compute_full_profile mp inp) = Inr p"
    by (simp add: compute_full_profile_valid col1_result p)
  moreover from p calculate_profile_cases [of mp inp]
  have "lcl_descent_pressure p = real_of_int (summit_pressure inp + south_pressure inp) / 2"
    by auto
  ultimately show "\<exists>p. snd (compute_full_profile mp inp) = Inr p \<and>
      lcl_descent_pressure p = real_of_int (summit_pressure inp + south_pressure inp) / 2"
    by blast
qed

text \<open>The preset: summit at 400 hPa, leeward surface at 1000 hPa, midpoint 700 hPa.\<close>

theorem lcl_descent_pressure_midpoint_witness:
  "north_dewpoint madeira \<le> north_temp madeira \<and>
   summit_pressure madeira < north_pressure madeira \<and>
   array_shaped isothermal \<and>
   (\<exists>p. snd (compute_full_profile isothermal madeira) = Inr p \<and> lcl_descent_pressure p = 700)"
proof -
  have h: "north_dewpoint madeira \<le> north_temp madeira \<and>
      summit_pressure madeira < north_pressure madeira \<and> array_shaped isothermal"
    by (simp add: madeira_def array_shaped_isothermal)
  have "real_of_int (summit_pressure madeira + south_pressure madeira) / 2 = 700"
    by (simp add: madeira_def)
  with h lcl_descent_pressure_midpoint [of isothermal madeira
      "\<lparr> lcl_pressure = 1000, lcl_temp = 20, summit_temp_calc = 20,
         summit_mixing_ratio = 4, lcl_descent_pressure = 700, lcl_descent_temp = 20,
         south_temp_calc = 20, south_dewpoint_calc = 20 \<rparr>"]
  show ?thesis by simp
qed

text \<open>
  C5. The claim is that a windward mixing ratio of 0 is rejected with
  InvalidInputError. The script has no such guard: with a mixing ratio of 0 the metrics
  are computed, three of them are displayed, and the division of line 325 then raises
  Python's ZeroDivisionError, whatever the profile and the library are.
\<close>

theorem zero_mixing_ratio_raises:
  "calculate_metrics mp (inp\<lparr>north_mixing_ratio := 0\<rparr>) prof =
     ([Calc Relative_humidity_from_dewpoint,
       Metric ''Temperature Change'' (south_temp_calc prof - north_temp inp)
         (south_temp_calc prof - north_temp inp),
       Metric ''Final Temperature'' (south_temp_calc prof) (north_temp inp),
       Metric ''Relative Humidity''
         (relative_humidity_from_dewpoint mp (south_temp_calc prof) (south_dewpoint_calc prof))
         (100 - relative_humidity_from_dewpoint mp (south_temp_calc prof)
                  (south_dewpoint_calc prof))],
      Inl ZeroDivisionError)"
  by (simp add: calculate_metrics_def call_def emit_def truediv_def raise_def Let_def)

text \<open>
  C10. Two runs that agree on the six scalars and differ in the value of the
  "Run Analysis" button have the same trace and the same result: the same calls into the
  library, the same plotted points and processes, the same metrics, table, banners and
  report, or the same error.
\<close>

theorem analyze_button_not_read:
  "app mp (inp\<lparr>analyze_button := b\<rparr>) = app mp inp"
  by (simp add: app_def compute_full_profile_def validation_def col1_def create_analyzer_def
      calculate_profile_def plot_profile_def col2_def calculate_metrics_def results_data_def
      report_def)

text \<open>
  C6. For every input whose dewpoint is above its temperature the script stops with
  InvalidInputError. The whole trace of the run is the one sidebar message: no call into
  the library (no condensation level, no lapse integration) has been made, and nothing
  has been plotted or displayed. This holds for the profile computation and for the
  whole script, whatever the library is.
\<close>

theorem dewpoint_above_temp_stops:
  "north_temp inp < north_dewpoint inp \<Longrightarrow>
   compute_full_profile mp inp =
     ([Sidebar_error ''WARNING: Dewpoint cannot exceed temperature''],
      Inl (InvalidInputError ''WARNING: Dewpoint cannot exceed temperature'')) \<and>
   app mp inp =
     ([Sidebar_error ''WARNING: Dewpoint cannot exceed temperature''],
      Inl (InvalidInputError ''WARNING: Dewpoint cannot exceed temperature''))"
  by (simp add: app_def compute_full_profile_def validation_dewpoint)

text \<open>The preset with the dewpoint slider moved to 25 degC, above the 20 degC of the air.\<close>

theorem dewpoint_above_temp_stops_witness:
  "north_temp (madeira\<lparr>north_dewpoint := 25\<rparr>) < north_dewpoint (madeira\<lparr>north_dewpoint := 25\<rparr>) \<and>
   widget_range (madeira\<lparr>north_dewpoint := 25\<rparr>) \<and>
   app isothermal (madeira\<lparr>north_dewpoint := 25\<rparr>) =
     ([Sidebar_error ''WARNING: Dewpoint cannot exceed temperature''],
      Inl (InvalidInputError ''WARNING: Dewpoint cannot exceed temperature''))"
  using dewpoint_above_temp_stops [of "madeira\<lparr>north_dewpoint := 25\<rparr>" isothermal]
  by (simp add: madeira_def widget_range_def)

end
